theory Spec2Isabelle
  imports Complex_Main
begin

section \<open>JavaScript numbers and their text form\<close>

text \<open>
  script.js keeps its state in \<open>localStorage\<close>, which holds strings only: every number
  is written with \<open>String(x)\<close> and read back with \<open>parseFloat\<close> or \<open>parseInt\<close>.
  A JavaScript number is NaN, an infinity, or a finite value. Every finite double is a
  finite decimal, so the finite numbers that reach the storage are modelled as exact
  decimals \<open>Dec m e\<close>, standing for \<open>m * 10^e\<close>. Arithmetic is exact: rounding to 53
  bits, overflow to Infinity and the sign of zero are not modelled. Strings are lists of
  bytes; only the ASCII white space is recognised.
\<close>

datatype 'a jsnum = NaN | PInf | NInf | Fin 'a

datatype dec = Dec int int

fun val :: "dec \<Rightarrow> real" where
  "val (Dec m e) = of_int m * 10 powi e"

fun dec_add :: "dec \<Rightarrow> dec \<Rightarrow> dec" where
  "dec_add (Dec m1 e1) (Dec m2 e2) =
     (let e = min e1 e2
      in Dec (m1 * 10 ^ nat (e1 - e) + m2 * 10 ^ nat (e2 - e)) e)"

definition is_space :: "char \<Rightarrow> bool" where
  "is_space c \<longleftrightarrow> (of_char c :: nat) \<in> {9, 10, 11, 12, 13, 32}"

definition is_digit :: "char \<Rightarrow> bool" where
  "is_digit c \<longleftrightarrow> 48 \<le> (of_char c :: nat) \<and> (of_char c :: nat) \<le> 57"

definition digit_val :: "char \<Rightarrow> nat" where
  "digit_val c = of_char c - 48"

definition digits_val :: "string \<Rightarrow> nat" where
  "digits_val ds = foldl (\<lambda>a c. 10 * a + digit_val c) 0 ds"

definition digit_char :: "nat \<Rightarrow> char" where
  "digit_char d = ''0123456789'' ! d"

fun digits_of :: "nat \<Rightarrow> string" where
  "digits_of n =
     (if n < 10 then [digit_char n] else digits_of (n div 10) @ [digit_char (n mod 10)])"

declare digits_of.simps [simp del]

text \<open>A string of decimal digits only.\<close>

definition all_digits :: "string \<Rightarrow> bool" where
  "all_digits ds \<longleftrightarrow> (\<forall>c \<in> set ds. is_digit c)"

text \<open>\<open>ToString\<close> of what \<open>localStorage.getItem\<close> returns: \<open>null\<close> for a missing key.\<close>

definition ToString :: "string option \<Rightarrow> string" where
  "ToString v = (case v of None \<Rightarrow> ''null'' | Some s \<Rightarrow> s)"

text \<open>An optional sign: the factor it stands for and the text after it.\<close>

definition read_sign :: "string \<Rightarrow> int \<times> string" where
  "read_sign s =
     (case s of
        [] \<Rightarrow> (1, s)
      | c # r \<Rightarrow> if c = CHR ''-'' then (- 1, r) else if c = CHR ''+'' then (1, r) else (1, s))"

text \<open>
  \<open>parseInt(v, 10)\<close>: leading white space is dropped, a sign is read, and the longest run
  of decimal digits is the value; NaN when there is no digit.
\<close>

definition parseInt :: "string option \<Rightarrow> int jsnum" where
  "parseInt v =
     (let (sg, t) = read_sign (dropWhile is_space (ToString v));
          ds = takeWhile is_digit t
      in if ds = [] then NaN else Fin (sg * int (digits_val ds)))"

text \<open>The exponent part \<open>e\<close>, \<open>e+\<close> or \<open>e-\<close> followed by digits; 0 when there is none.\<close>

definition read_exponent :: "string \<Rightarrow> int" where
  "read_exponent s =
     (case s of
        [] \<Rightarrow> 0
      | c # r \<Rightarrow>
          if c = CHR ''e'' \<or> c = CHR ''E'' then
            (let (sg, u) = read_sign r; ds = takeWhile is_digit u
             in if ds = [] then 0 else sg * int (digits_val ds))
          else 0)"

text \<open>
  \<open>parseFloat(v)\<close>: the longest prefix, after leading white space, that is a
  \<open>StrDecimalLiteral\<close>: a sign, then \<open>Infinity\<close> or digits with an optional fraction and an
  optional exponent; NaN when there is no such prefix.
\<close>

definition parseFloat :: "string option \<Rightarrow> dec jsnum" where
  "parseFloat v =
     (let (sg, t) = read_sign (dropWhile is_space (ToString v))
      in if take 8 t = ''Infinity'' then (if sg < 0 then NInf else PInf)
         else
           (let ip = takeWhile is_digit t;
                r1 = dropWhile is_digit t;
                (fp, r2) = (case r1 of
                              [] \<Rightarrow> ([], r1)
                            | c # r \<Rightarrow> if c = CHR ''.''
                                       then (takeWhile is_digit r, dropWhile is_digit r)
                                       else ([], r1))
            in if ip = [] \<and> fp = [] then NaN
               else Fin (Dec (sg * (int (digits_val ip) * 10 ^ length fp + int (digits_val fp)))
                             (read_exponent r2 - int (length fp)))))"

text \<open>Trailing zeros of the digit string move into the exponent.\<close>

function strip10 :: "nat \<Rightarrow> int \<Rightarrow> nat \<times> int" where
  "strip10 m e = (if m \<noteq> 0 \<and> m mod 10 = 0 then strip10 (m div 10) (e + 1) else (m, e))"
  by pat_completeness auto
termination
  by (relation "measure (\<lambda>(m, e). m)") auto

declare strip10.simps [simp del]

text \<open>
  \<open>String(x)\<close> for a finite number (Number::toString, radix 10). With the \<open>k\<close> digits
  \<open>ds\<close> of the shortest digit string and the decimal point after the \<open>n\<close>-th digit:
  plain notation when \<open>-5 \<le> n \<le> 21\<close>, exponent notation otherwise.
\<close>

definition format_digits :: "string \<Rightarrow> int \<Rightarrow> string" where
  "format_digits ds n =
     (let k = int (length ds)
      in if - 5 \<le> n \<and> n \<le> 21 then
           (if k \<le> n then ds @ replicate (nat (n - k)) (CHR ''0'')
            else if 0 < n then take (nat n) ds @ ''.'' @ drop (nat n) ds
            else ''0.'' @ replicate (nat (- n)) (CHR ''0'') @ ds)
         else
           (let ex = n - 1;
                es = (if ex < 0 then ''-'' else ''+'') @ digits_of (nat \<bar>ex\<bar>)
            in if k = 1 then ds @ ''e'' @ es
               else take 1 ds @ ''.'' @ drop 1 ds @ ''e'' @ es))"

definition num_to_string :: "dec \<Rightarrow> string" where
  "num_to_string x =
     (case x of Dec m e \<Rightarrow>
        if m = 0 then ''0''
        else
          (if m < 0 then ''-'' else []) @
          (let (s, e') = strip10 (nat \<bar>m\<bar>) e; ds = digits_of s
           in format_digits ds (e' + int (length ds))))"

text \<open>
  The numbers of a position fix and the quantities derived from them (elapsed time,
  implied speed) are never written to the storage; their finite values are reals.
  \<open>d / dt\<close>, \<open>x > b\<close> and \<open>x >= b\<close> on JavaScript numbers: a comparison with NaN is false.
\<close>

fun js_div :: "dec jsnum \<Rightarrow> real \<Rightarrow> real jsnum" where
  "js_div NaN dt = NaN"
| "js_div PInf dt = (if dt < 0 then NInf else PInf)"
| "js_div NInf dt = (if dt < 0 then PInf else NInf)"
| "js_div (Fin x) dt =
     (if dt = 0 then (if val x = 0 then NaN else if 0 < val x then PInf else NInf)
      else Fin (val x / dt))"

fun js_gt :: "real jsnum \<Rightarrow> real \<Rightarrow> bool" where
  "js_gt (Fin r) b = (b < r)"
| "js_gt PInf b = True"
| "js_gt NInf b = False"
| "js_gt NaN b = False"

fun js_ge :: "dec jsnum \<Rightarrow> real \<Rightarrow> bool" where
  "js_ge (Fin x) b = (b \<le> val x)"
| "js_ge PInf b = True"
| "js_ge NInf b = False"
| "js_ge NaN b = False"

section \<open>The daily state store\<close>

text \<open>
  \<open>localStorage\<close> maps keys to strings; \<open>getItem\<close> of a missing key is \<open>null\<close>. The
  state object has the four stored fields; \<open>loadState\<close> attaches \<open>steps\<close> to it.
  \<open>todayString()\<close> reads the clock: the date it returns is the argument \<open>today\<close> of
  every operation.
\<close>

type_synonym storage = "string \<rightharpoonup> string"

definition getItem :: "storage \<Rightarrow> string \<Rightarrow> string option" where
  "getItem ls k = ls k"

definition setItem :: "storage \<Rightarrow> string \<Rightarrow> string \<Rightarrow> storage" where
  "setItem ls k v = ls(k \<mapsto> v)"

definition key_distance :: string where "key_distance = ''gps_distance_m''"
definition key_goal :: string where "key_goal = ''gps_goal''"
definition key_stride :: string where "key_stride = ''gps_stride_m''"
definition key_date :: string where "key_date = ''gps_date''"

definition DEFAULT_GOAL :: int where "DEFAULT_GOAL = 10000"
definition DEFAULT_STRIDE :: dec where "DEFAULT_STRIDE = Dec 78 (- 2)"
definition MAX_ACCEPTABLE_ACCURACY :: real where "MAX_ACCEPTABLE_ACCURACY = 25"
definition MAX_SPEED_MPS :: real where "MAX_SPEED_MPS = 8"

record state =
  distance :: dec
  goal :: int
  stride :: dec
  date :: string

record loaded = state +
  steps :: int

definition saveState :: "string \<Rightarrow> 'a state_scheme \<Rightarrow> storage \<Rightarrow> storage" where
  "saveState today st ls =
     (let ls1 = setItem ls key_distance (num_to_string (distance st));
          ls2 = setItem ls1 key_goal (num_to_string (Dec (goal st) 0));
          ls3 = setItem ls2 key_stride (num_to_string (stride st))
      in setItem ls3 key_date (if date st \<noteq> [] then date st else today))"

text \<open>
  The four checks that \<open>loadState\<close> makes while it builds the state object:
  \<^verbatim>\<open>Number.isFinite(rawDist) && rawDist >= 0 ? rawDist : 0\<close>,
  \<^verbatim>\<open>Number.isFinite(goal) && goal >= 100 ? goal : DEFAULT_GOAL\<close>,
  \<^verbatim>\<open>Number.isFinite(stride) && stride > 0 ? stride : DEFAULT_STRIDE\<close> and
  \<^verbatim>\<open>storedDate || todayString()\<close>.
\<close>

definition checked_distance :: "dec jsnum \<Rightarrow> dec" where
  "checked_distance rawDist =
     (case rawDist of Fin x \<Rightarrow> if 0 \<le> val x then x else Dec 0 0 | _ \<Rightarrow> Dec 0 0)"

definition checked_goal :: "int jsnum \<Rightarrow> int" where
  "checked_goal rawGoal =
     (case rawGoal of Fin g \<Rightarrow> if 100 \<le> g then g else DEFAULT_GOAL | _ \<Rightarrow> DEFAULT_GOAL)"

definition checked_stride :: "dec jsnum \<Rightarrow> dec" where
  "checked_stride rawStride =
     (case rawStride of
        Fin x \<Rightarrow> if 0 < val x then x else DEFAULT_STRIDE
      | _ \<Rightarrow> DEFAULT_STRIDE)"

definition checked_date :: "string option \<Rightarrow> string \<Rightarrow> string" where
  "checked_date storedDate today =
     (case storedDate of Some d \<Rightarrow> if d \<noteq> [] then d else today | None \<Rightarrow> today)"

text \<open>
  \<open>loadState\<close> returns the state and the storage it leaves behind (it writes on a day
  change). \<open>rawGoal\<close> and \<open>rawStride\<close> are the source's locals \<open>goal\<close> and \<open>stride\<close>.
  After the checks the stride is positive, so \<open>Math.floor(state.distance / state.stride)\<close>
  is an integer.
\<close>

definition loadState :: "string \<Rightarrow> storage \<Rightarrow> loaded \<times> storage" where
  "loadState today ls =
     (let rawDist = parseFloat (getItem ls key_distance);
          rawGoal = parseInt (getItem ls key_goal);
          rawStride = parseFloat (getItem ls key_stride);
          storedDate = getItem ls key_date;
          st = \<lparr> distance = checked_distance rawDist,
                 goal = checked_goal rawGoal,
                 stride = checked_stride rawStride,
                 date = checked_date storedDate today \<rparr>;
          (st', ls') = (if date st \<noteq> today
                        then (let s0 = st\<lparr>distance := Dec 0 0, date := today\<rparr>
                              in (s0, saveState today s0 ls))
                        else (st, ls))
      in (\<lparr> distance = distance st', goal = goal st', stride = stride st', date = date st',
            steps = \<lfloor>val (distance st') / val (stride st')\<rfloor> \<rparr>, ls'))"

text \<open>The stored date needs no day change: it is absent, empty or today's.\<close>

definition date_current :: "string \<Rightarrow> storage \<Rightarrow> bool" where
  "date_current today ls \<longleftrightarrow> checked_date (getItem ls key_date) today = today"

section \<open>The Haversine distance\<close>

text \<open>
  The formula of \<open>distanceInMeters\<close> over the reals. \<open>Math.atan2\<close> is written out with
  \<open>arctan\<close>. What the floating-point evaluation of the formula returns (a double, or NaN
  when rounding takes the argument of a square root below zero) is the parameter \<open>fl\<close> of
  the position callback, applied to the real result.
\<close>

definition atan2 :: "real \<Rightarrow> real \<Rightarrow> real" where
  "atan2 y x =
     (if 0 < x then arctan (y / x)
      else if x < 0 then (if 0 \<le> y then arctan (y / x) + pi else arctan (y / x) - pi)
      else if 0 < y then pi / 2
      else if y < 0 then - pi / 2
      else 0)"

definition toRad :: "real \<Rightarrow> real" where
  "toRad v = (v * pi) / 180"

definition distanceInMeters :: "real \<Rightarrow> real \<Rightarrow> real \<Rightarrow> real \<Rightarrow> real" where
  "distanceInMeters lat1 lon1 lat2 lon2 =
     (let R = 6371000;
          dLat = toRad (lat2 - lat1);
          dLon = toRad (lon2 - lon1);
          a = sin (dLat / 2) * sin (dLat / 2) +
              cos (toRad lat1) * cos (toRad lat2) * sin (dLon / 2) * sin (dLon / 2);
          c = 2 * atan2 (sqrt a) (sqrt (1 - a))
      in R * c)"

section \<open>The page and the tracking session\<close>

text \<open>
  The page holds what \<open>updateUI\<close> and the handlers write: the status line, the two
  settings inputs, the numbers shown (before \<open>toLocaleString\<close>, \<open>toFixed\<close> and
  \<open>formatDistance\<close> turn them into text) and the messages passed to \<open>alert\<close>.
\<close>

record page =
  statusText :: string
  goalInput :: string
  strideInput :: string
  stepCount :: int
  goalLabel :: int
  remainingLabel :: int
  progressPercent :: int
  goalMessage :: string
  distanceShown :: dec
  speedShown :: "real jsnum option"
  accuracyShown :: "real option"
  alerts :: "string list"

record extras =
  accuracy :: "real option"
  speed :: "real jsnum option"
  status :: "string option"

definition updateUI :: "'a state_scheme \<Rightarrow> extras \<Rightarrow> page \<Rightarrow> page" where
  "updateUI st ex pg =
     (let steps = \<lfloor>val (distance st) / val (stride st)\<rfloor>;
          remaining = max (goal st - steps) 0;
          percentRaw = (if 0 < goal st
                        then \<lfloor>(real_of_int steps / real_of_int (goal st)) * 100 + 1 / 2\<rfloor>
                        else 0);
          percent = min percentRaw 100
      in pg\<lparr> stepCount := steps,
              goalLabel := goal st,
              remainingLabel := remaining,
              progressPercent := percent,
              goalMessage := (if goal st \<le> steps then ''Goal reached!'' else []),
              distanceShown := distance st,
              speedShown := speed ex,
              accuracyShown := accuracy ex,
              statusText := (case status ex of
                               Some s \<Rightarrow> if s \<noteq> [] then s else statusText pg
                             | None \<Rightarrow> statusText pg),
              goalInput := num_to_string (Dec (goal st) 0),
              strideInput := num_to_string (stride st) \<rparr>)"

record position =
  latitude :: real
  longitude :: real
  pos_accuracy :: real
  pos_speed :: "real option"
  pos_timestamp :: int

record last_pos =
  lat :: real
  lon :: real
  timestamp :: int

record app =
  localStorage :: storage
  lastPos :: "last_pos option"
  watchId :: "nat option"
  page :: page

text \<open>\<open>reportedSpeed || other\<close>: a reported speed that is null or 0 gives way to \<open>other\<close>.\<close>

definition speed_or :: "real option \<Rightarrow> real jsnum option \<Rightarrow> real jsnum option" where
  "speed_or reported other =
     (case reported of
        Some v \<Rightarrow> if v \<noteq> 0 then Some (Fin v) else other
      | None \<Rightarrow> other)"

text \<open>\<^verbatim>\<open>pos.timestamp || Date.now()\<close>: a timestamp of 0 gives way to the clock.\<close>

definition sample_timestamp :: "int \<Rightarrow> position \<Rightarrow> int" where
  "sample_timestamp now pos = (if pos_timestamp pos \<noteq> 0 then pos_timestamp pos else now)"

text \<open>
  The success callback that \<open>startTracking\<close> registers with \<open>watchPosition\<close>. \<open>now\<close> is
  what \<open>Date.now()\<close> returns. In the branch that adds \<open>d\<close>, \<open>d\<close> is finite: an infinite \<open>d\<close>
  has an infinite implied speed and was rejected as a jump.
\<close>

definition positionCallback ::
    "(real \<Rightarrow> dec jsnum) \<Rightarrow> string \<Rightarrow> int \<Rightarrow> position \<Rightarrow> app \<Rightarrow> app" where
  "positionCallback fl today now pos ap =
     (let lat = latitude pos;
          lon = longitude pos;
          acc = pos_accuracy pos;
          reportedSpeed = pos_speed pos;
          timestamp = sample_timestamp now pos;
          (st, ls) = loadState today (localStorage ap)
      in if MAX_ACCEPTABLE_ACCURACY < acc then
           ap\<lparr> localStorage := ls,
                page := updateUI st \<lparr> accuracy = Some acc,
                                      speed = map_option Fin reportedSpeed,
                                      status = Some ''Low accuracy'' \<rparr> (page ap) \<rparr>
         else
           (case lastPos ap of
              Some lp \<Rightarrow>
                (let dt = real_of_int (timestamp - last_pos.timestamp lp) / 1000
                 in if dt \<le> 0 then
                      ap\<lparr> localStorage := ls,
                           page := updateUI st \<lparr> accuracy = Some acc,
                                                 speed = map_option Fin reportedSpeed,
                                                 status = Some ''Tracking'' \<rparr> (page ap) \<rparr>
                    else
                      (let d = fl (distanceInMeters (last_pos.lat lp) (last_pos.lon lp) lat lon);
                           impliedSpeed = js_div d dt
                       in if js_gt impliedSpeed MAX_SPEED_MPS then
                            ap\<lparr> localStorage := ls,
                                 page := updateUI st
                                   \<lparr> accuracy = Some acc,
                                     speed = speed_or reportedSpeed (Some impliedSpeed),
                                     status = Some ''Tracking (ignoring jump)'' \<rparr> (page ap) \<rparr>
                          else
                            (let (st2, ls2) =
                                   (if js_ge d (1 / 2) then
                                      (case d of
                                         Fin x \<Rightarrow>
                                           (let s = st\<lparr>distance := dec_add (distance st) x\<rparr>
                                            in (s, saveState today s ls))
                                       | _ \<Rightarrow> (st, ls))
                                    else (st, ls))
                             in ap\<lparr> localStorage := ls2,
                                     page := updateUI st2
                                       \<lparr> accuracy = Some acc,
                                         speed = speed_or reportedSpeed (Some impliedSpeed),
                                         status = Some ''Tracking'' \<rparr> (page ap),
                                     lastPos := Some \<lparr> lat = lat, lon = lon,
                                                       timestamp = timestamp \<rparr> \<rparr>)))
            | None \<Rightarrow>
                ap\<lparr> localStorage := ls,
                     page := updateUI st \<lparr> accuracy = Some acc,
                                           speed = speed_or reportedSpeed None,
                                           status = Some ''Tracking'' \<rparr> (page ap),
                     lastPos := Some \<lparr> lat = lat, lon = lon, timestamp = timestamp \<rparr> \<rparr>))"







section \<open>Vocabulary of the properties\<close>

text \<open>
  Names for what the position callback computes from the last accepted position \<open>lp\<close>
  and a sample: the elapsed time \<open>dt\<close> in seconds, the distance \<open>d\<close>, and the object
  \<^verbatim>\<open>{lat, lon, timestamp}\<close> that becomes \<open>lastPos\<close>. \<open>distanceMeters\<close> is the distance that
  \<open>loadState\<close> reports for a storage on the day \<open>today\<close>.
\<close>

definition elapsed :: "int \<Rightarrow> last_pos \<Rightarrow> position \<Rightarrow> real" where
  "elapsed now lp pos = real_of_int (sample_timestamp now pos - timestamp lp) / 1000"

definition sample_distance :: "(real \<Rightarrow> dec jsnum) \<Rightarrow> last_pos \<Rightarrow> position \<Rightarrow> dec jsnum" where
  "sample_distance fl lp pos =
     fl (distanceInMeters (lat lp) (lon lp) (latitude pos) (longitude pos))"

definition accepted :: "int \<Rightarrow> position \<Rightarrow> last_pos" where
  "accepted now pos =
     \<lparr> lat = latitude pos, lon = longitude pos, timestamp = sample_timestamp now pos \<rparr>"

definition distanceMeters :: "string \<Rightarrow> storage \<Rightarrow> real" where
  "distanceMeters today ls = val (distance (fst (loadState today ls)))"



section \<open>Example data\<close>

text \<open>
  A storage as the application leaves it (5000 m walked on 2024-05-01, goal 10000,
  stride 0.78), a page, and a session whose last accepted position is latitude 0,
  longitude 0 at time 1000 ms. The samples lie on the equator, at longitude 0 (the same
  place) or 180 (the antipode, \<open>6371000 * pi\<close> metres away). \<open>example_fl\<close> gives the result
  of the formula at these two distances, to the metre. \<open>oversized_storage\<close> holds a goal
  and a stride beyond the ranges of the settings form.
\<close>

definition example_page :: page where
  "example_page =
     \<lparr> statusText = ''Tracking'', goalInput = ''10000'', strideInput = ''0.78'',
       stepCount = 6410, goalLabel = 10000, remainingLabel = 3590, progressPercent = 64,
       goalMessage = [], distanceShown = Dec 5000 0, speedShown = None,
       accuracyShown = None, alerts = [] \<rparr>"

definition example_storage :: storage where
  "example_storage =
     Map.empty(key_distance \<mapsto> ''5000'', key_goal \<mapsto> ''10000'',
               key_stride \<mapsto> ''0.78'', key_date \<mapsto> ''2024-05-01'')"

definition example_app :: app where
  "example_app =
     \<lparr> localStorage = example_storage,
       lastPos = Some \<lparr> lat = 0, lon = 0, timestamp = 1000 \<rparr>,
       watchId = Some 1,
       page = example_page \<rparr>"

definition example_position :: "real \<Rightarrow> real \<Rightarrow> int \<Rightarrow> position" where
  "example_position lo acc t =
     \<lparr> latitude = 0, longitude = lo, pos_accuracy = acc, pos_speed = None,
       pos_timestamp = t \<rparr>"

definition example_fl :: "real \<Rightarrow> dec jsnum" where
  "example_fl x = (if x < 1 then Fin (Dec 0 0) else Fin (Dec 20015087 0))"



section \<open>Digits and their values\<close>



lemma all_digits_simps [simp]:
  "all_digits []"
  "all_digits (c # cs) \<longleftrightarrow> is_digit c \<and> all_digits cs"
  "all_digits (xs @ ys) \<longleftrightarrow> all_digits xs \<and> all_digits ys"
  by (auto simp: all_digits_def)








lemma digits_val_Nil [simp]: "digits_val [] = 0"
  by (simp add: digits_val_def)






section \<open>Reading back what String wrote\<close>





lemma read_exponent_Nil [simp]: "read_exponent [] = 0"
  by (simp add: read_exponent_def)







lemma parseFloat_zero: "parseFloat (Some ''0'') = Fin (Dec 0 0)"
  by (simp add: parseFloat_def ToString_def read_sign_def is_space_def is_digit_def
      digits_val_def digit_val_def)










lemma checked_distance_zero:
  "checked_distance (parseFloat (Some (num_to_string (Dec 0 0)))) = Dec 0 0"
  by (simp add: num_to_string_def parseFloat_zero checked_distance_def)

lemma checked_nonneg: "0 \<le> val (checked_distance r)" "0 < val (checked_stride r)"
  "100 \<le> checked_goal g"
  by (auto simp: checked_distance_def checked_stride_def checked_goal_def DEFAULT_STRIDE_def
      DEFAULT_GOAL_def split: jsnum.splits)

section \<open>Loading and saving\<close>

lemmas key_defs = key_distance_def key_goal_def key_stride_def key_date_def

lemma getItem_saveState:
  "getItem (saveState today st ls) key_distance = Some (num_to_string (distance st))"
  "getItem (saveState today st ls) key_goal = Some (num_to_string (Dec (goal st) 0))"
  "getItem (saveState today st ls) key_stride = Some (num_to_string (stride st))"
  "getItem (saveState today st ls) key_date = Some (if date st \<noteq> [] then date st else today)"
  by (simp_all add: saveState_def getItem_def setItem_def key_defs Let_def)

lemma loadState_current:
  assumes "date_current today ls"
  shows "loadState today ls =
    (\<lparr> distance = checked_distance (parseFloat (getItem ls key_distance)),
       goal = checked_goal (parseInt (getItem ls key_goal)),
       stride = checked_stride (parseFloat (getItem ls key_stride)),
       date = today,
       steps = \<lfloor>val (checked_distance (parseFloat (getItem ls key_distance))) /
                 val (checked_stride (parseFloat (getItem ls key_stride)))\<rfloor> \<rparr>, ls)"
  using assms by (simp add: loadState_def date_current_def Let_def)

lemma loadState_stale:
  assumes "\<not> date_current today ls"
  shows "loadState today ls =
    (\<lparr> distance = Dec 0 0,
       goal = checked_goal (parseInt (getItem ls key_goal)),
       stride = checked_stride (parseFloat (getItem ls key_stride)),
       date = today,
       steps = 0 \<rparr>,
     saveState today \<lparr> distance = Dec 0 0,
       goal = checked_goal (parseInt (getItem ls key_goal)),
       stride = checked_stride (parseFloat (getItem ls key_stride)),
       date = today \<rparr> ls)"
  using assms by (simp add: loadState_def date_current_def Let_def)

lemma date_current_saveState:
  "date st = today \<or> date st = [] \<Longrightarrow> date_current today (saveState today st ls)"
  by (auto simp: date_current_def getItem_saveState checked_date_def)

lemma loadState_facts:
  "date (fst (loadState today ls)) = today"
  "0 \<le> val (distance (fst (loadState today ls)))"
  "0 < val (stride (fst (loadState today ls)))"
  "100 \<le> goal (fst (loadState today ls))"
  "goal (fst (loadState today ls)) = checked_goal (parseInt (getItem ls key_goal))"
  "stride (fst (loadState today ls)) = checked_stride (parseFloat (getItem ls key_stride))"
  "date_current today (snd (loadState today ls))"
  by (cases "date_current today ls";
      simp add: loadState_current loadState_stale checked_nonneg date_current_saveState)+

lemma loadState_idem_storage: "snd (loadState today (snd (loadState today ls))) = snd (loadState today ls)"
  by (simp add: loadState_current [OF loadState_facts(7)])

lemma loadState_idem_distance:
  "distance (fst (loadState today (snd (loadState today ls)))) = distance (fst (loadState today ls))"
proof (cases "date_current today ls")
  case True
  then show ?thesis by (simp add: loadState_current)
next
  case False
  have "date_current today (snd (loadState today ls))" by (rule loadState_facts)
  then show ?thesis
    by (simp add: loadState_current) (simp add: loadState_stale [OF False] getItem_saveState
        checked_distance_zero)
qed


section \<open>The branches of the position callback\<close>

lemmas sample_defs = elapsed_def sample_distance_def accepted_def

lemma callback_low_accuracy:
  assumes "MAX_ACCEPTABLE_ACCURACY < pos_accuracy pos"
  shows "localStorage (positionCallback fl today now pos ap) = snd (loadState today (localStorage ap))"
    and "lastPos (positionCallback fl today now pos ap) = lastPos ap"
  using assms by (simp_all add: positionCallback_def Let_def split: prod.splits)


lemma callback_anomaly:
  assumes "lastPos ap = Some lp" "elapsed now lp pos \<le> 0"
  shows "localStorage (positionCallback fl today now pos ap) = snd (loadState today (localStorage ap))"
    and "lastPos (positionCallback fl today now pos ap) = lastPos ap"
  using assms by (simp_all add: positionCallback_def Let_def sample_defs split: prod.splits)


lemma callback_noise:
  assumes "\<not> MAX_ACCEPTABLE_ACCURACY < pos_accuracy pos" "lastPos ap = Some lp"
    "0 < elapsed now lp pos"
    "\<not> js_gt (js_div (sample_distance fl lp pos) (elapsed now lp pos)) MAX_SPEED_MPS"
    "\<not> js_ge (sample_distance fl lp pos) (1 / 2)"
  shows "localStorage (positionCallback fl today now pos ap) = snd (loadState today (localStorage ap))"
    and "lastPos (positionCallback fl today now pos ap) = Some (accepted now pos)"
  using assms by (simp_all add: positionCallback_def Let_def sample_defs split: prod.splits)


lemma distanceMeters_after_load:
  "distanceMeters today (snd (loadState today ls)) = distanceMeters today ls"
  by (simp add: distanceMeters_def loadState_idem_distance)


lemma untouched_storage:
  assumes "ls' = snd (loadState today ls)"
  shows "distanceMeters today ls' = distanceMeters today ls"
    and "date_current today ls \<longrightarrow> ls' = ls"
  using assms by (simp_all add: distanceMeters_after_load loadState_current)



section \<open>The example data evaluated\<close>

lemmas parse_defs = parseFloat_def parseInt_def ToString_def read_sign_def read_exponent_def
  is_space_def is_digit_def digits_val_def digit_val_def

lemma example_storage_items:
  "getItem example_storage key_distance = Some ''5000''"
  "getItem example_storage key_goal = Some ''10000''"
  "getItem example_storage key_stride = Some ''0.78''"
  "getItem example_storage key_date = Some ''2024-05-01''"
  by (simp_all add: example_storage_def getItem_def key_defs)

lemma example_parsed:
  "parseFloat (Some ''5000'') = Fin (Dec 5000 0)"
  "parseInt (Some ''10000'') = Fin 10000"
  "parseFloat (Some ''0.78'') = Fin (Dec 78 (- 2))"
  by (simp_all add: parse_defs)

lemma example_current: "date_current ''2024-05-01'' example_storage"
  by (simp add: date_current_def checked_date_def example_storage_items)


lemma example_loaded:
  "fst (loadState ''2024-05-01'' example_storage) =
     \<lparr> distance = Dec 5000 0, goal = 10000, stride = Dec 78 (- 2), date = ''2024-05-01'',
       steps = 6410 \<rparr>"
  by (simp add: loadState_current [OF example_current] example_storage_items example_parsed
      checked_distance_def checked_goal_def checked_stride_def)

lemma example_distance: "distanceMeters ''2024-05-01'' example_storage = 5000"
  by (simp add: distanceMeters_def example_loaded)

lemma example_unchanged: "snd (loadState ''2024-05-01'' example_storage) = example_storage"
  by (simp add: loadState_current [OF example_current])

lemmas example_facts = example_app_def example_distance example_unchanged


lemma distance_same_place: "distanceInMeters la lo la lo = 0"
  by (simp add: distanceInMeters_def toRad_def atan2_def)

lemma distance_antipodes: "distanceInMeters 0 0 0 180 = 6371000 * pi"
  by (simp add: distanceInMeters_def toRad_def atan2_def)

lemma example_distances:
  "sample_distance example_fl \<lparr> lat = 0, lon = 0, timestamp = 1000 \<rparr> (example_position 0 acc t) =
     Fin (Dec 0 0)"
  "sample_distance example_fl \<lparr> lat = 0, lon = 0, timestamp = 1000 \<rparr> (example_position 180 acc t) =
     Fin (Dec 20015087 0)"
proof -
  have "\<not> 6371000 * pi < 1" using pi_ge_two by simp
  then show
    "sample_distance example_fl \<lparr> lat = 0, lon = 0, timestamp = 1000 \<rparr> (example_position 0 acc t) =
       Fin (Dec 0 0)"
    "sample_distance example_fl \<lparr> lat = 0, lon = 0, timestamp = 1000 \<rparr> (example_position 180 acc t) =
       Fin (Dec 20015087 0)"
    by (simp_all add: sample_distance_def example_position_def example_fl_def
        distance_same_place distance_antipodes)
qed

lemma example_elapsed:
  "elapsed 0 \<lparr> lat = 0, lon = 0, timestamp = 1000 \<rparr> (example_position lo acc 500) = - (1 / 2)"
  "elapsed 0 \<lparr> lat = 0, lon = 0, timestamp = 1000 \<rparr> (example_position lo acc 2000) = 1"
  "elapsed 0 \<lparr> lat = 0, lon = 0, timestamp = 1000 \<rparr> (example_position lo acc 61000) = 60"
  "elapsed 0 \<lparr> lat = 0, lon = 0, timestamp = 1000 \<rparr> (example_position lo acc 10000001000) =
     10000000"
  by (simp_all add: elapsed_def sample_timestamp_def example_position_def)

lemma example_accepted:
  "accepted 0 (example_position lo acc 61000) = \<lparr> lat = 0, lon = lo, timestamp = 61000 \<rparr>"
  "accepted 0 (example_position lo acc 10000001000) =
     \<lparr> lat = 0, lon = lo, timestamp = 10000001000 \<rparr>"
  by (simp_all add: accepted_def sample_timestamp_def example_position_def)

section \<open>The properties\<close>

subsection \<open>Sanitising on load\<close>




subsection \<open>Rejected samples\<close>



subsection \<open>Day rollover\<close>

text \<open>
  Claim C3. When the stored date is a day other than today, \<open>loadState\<close> returns
  distance 0 and today's date and writes them at once: the storage it leaves holds the
  distance text 0 and today's date. A second \<open>loadState\<close> on that storage, with nothing
  written in between, returns distance 0 and today's date again and writes nothing.
\<close>

theorem day_rollover_persisted:
  assumes "getItem ls key_date = Some d" and "d \<noteq> []" and "d \<noteq> today"
  shows "distance (fst (loadState today ls)) = Dec 0 0 \<and>
         date (fst (loadState today ls)) = today \<and>
         getItem (snd (loadState today ls)) key_distance = Some ''0'' \<and>
         getItem (snd (loadState today ls)) key_date = Some today \<and>
         distance (fst (loadState today (snd (loadState today ls)))) = Dec 0 0 \<and>
         date (fst (loadState today (snd (loadState today ls)))) = today \<and>
         snd (loadState today (snd (loadState today ls))) = snd (loadState today ls)"
proof -
  from assms have stale: "\<not> date_current today ls"
    by (simp add: date_current_def checked_date_def)
  have "distance (fst (loadState today (snd (loadState today ls)))) =
      distance (fst (loadState today ls))"
    by (rule loadState_idem_distance)
  then show ?thesis
    by (simp add: loadState_facts loadState_idem_storage)
      (simp add: loadState_stale [OF stale] getItem_saveState num_to_string_def)
qed

theorem day_rollover_persisted_witness:
  "getItem example_storage key_date = Some ''2024-05-01'' \<and>
   ''2024-05-01'' \<noteq> [] \<and> ''2024-05-01'' \<noteq> ''2024-05-02'' \<and>
   getItem example_storage key_distance = Some ''5000'' \<and>
   distance (fst (loadState ''2024-05-02'' example_storage)) = Dec 0 0 \<and>
   date (fst (loadState ''2024-05-02'' example_storage)) = ''2024-05-02'' \<and>
   getItem (snd (loadState ''2024-05-02'' example_storage)) key_distance = Some ''0'' \<and>
   getItem (snd (loadState ''2024-05-02'' example_storage)) key_date = Some ''2024-05-02'' \<and>
   distance (fst (loadState ''2024-05-02'' (snd (loadState ''2024-05-02'' example_storage)))) =
     Dec 0 0 \<and>
   date (fst (loadState ''2024-05-02'' (snd (loadState ''2024-05-02'' example_storage)))) =
     ''2024-05-02''"
proof -
  have h1: "getItem example_storage key_date = Some ''2024-05-01''"
    by (rule example_storage_items)
  have h2: "''2024-05-01'' \<noteq> []" and h3: "''2024-05-01'' \<noteq> ''2024-05-02''" by simp_all
  from day_rollover_persisted [OF h1 h2 h3] h1 example_storage_items(1)
  show ?thesis by simp
qed

subsection \<open>The distance of the day never decreases\<close>



subsection \<open>Low accuracy\<close>

text \<open>
  Claim C5. A sample whose accuracy is above 25 m changes neither \<open>lastPos\<close> nor the
  distance of the day, whatever its position, speed and timestamp. The callback writes
  nothing of its own: the storage is left as \<open>loadState\<close> leaves it, which is unchanged
  unless the stored date is an earlier day.
\<close>

theorem low_accuracy_sample_ignored:
  assumes "MAX_ACCEPTABLE_ACCURACY < pos_accuracy pos"
  shows "lastPos (positionCallback fl today now pos ap) = lastPos ap \<and>
         distanceMeters today (localStorage (positionCallback fl today now pos ap)) =
           distanceMeters today (localStorage ap) \<and>
         localStorage (positionCallback fl today now pos ap) =
           snd (loadState today (localStorage ap)) \<and>
         (date_current today (localStorage ap) \<longrightarrow>
            localStorage (positionCallback fl today now pos ap) = localStorage ap)"
  using callback_low_accuracy [OF assms, of fl today now ap]
    untouched_storage [of "localStorage (positionCallback fl today now pos ap)" today "localStorage ap"]
  by simp

theorem low_accuracy_sample_ignored_witness:
  "MAX_ACCEPTABLE_ACCURACY < pos_accuracy (example_position 180 30 2000) \<and>
   lastPos (positionCallback example_fl ''2024-05-01'' 0
      (example_position 180 30 2000) example_app) = Some \<lparr> lat = 0, lon = 0, timestamp = 1000 \<rparr> \<and>
   distanceMeters ''2024-05-01'' (localStorage (positionCallback example_fl
      ''2024-05-01'' 0 (example_position 180 30 2000) example_app)) = 5000 \<and>
   localStorage (positionCallback example_fl ''2024-05-01'' 0
      (example_position 180 30 2000) example_app) = example_storage"
proof -
  have h: "MAX_ACCEPTABLE_ACCURACY < pos_accuracy (example_position 180 30 2000)"
    by (simp add: MAX_ACCEPTABLE_ACCURACY_def example_position_def)
  have c: "date_current ''2024-05-01'' (localStorage example_app)"
    by (simp add: example_app_def example_current)
  from low_accuracy_sample_ignored [OF h, of example_fl "''2024-05-01''" 0 example_app] c h
  show ?thesis by (simp add: example_facts)
qed

subsection \<open>Noise below half a metre\<close>

text \<open>
  Claim C6. A sample that passes the accuracy, elapsed-time and speed checks and lies
  less than 0.5 m from \<open>lastPos\<close> leaves the distance of the day unchanged and becomes
  the new \<open>lastPos\<close>.
\<close>

theorem noise_moves_baseline_only:
  assumes "pos_accuracy pos \<le> MAX_ACCEPTABLE_ACCURACY"
    and "lastPos ap = Some lp"
    and "0 < elapsed now lp pos"
    and "\<not> js_gt (js_div (sample_distance fl lp pos) (elapsed now lp pos)) MAX_SPEED_MPS"
    and "sample_distance fl lp pos = Fin x" and "val x < 1 / 2"
  shows "lastPos (positionCallback fl today now pos ap) = Some (accepted now pos) \<and>
         distanceMeters today (localStorage (positionCallback fl today now pos ap)) =
           distanceMeters today (localStorage ap) \<and>
         localStorage (positionCallback fl today now pos ap) =
           snd (loadState today (localStorage ap)) \<and>
         (date_current today (localStorage ap) \<longrightarrow>
            localStorage (positionCallback fl today now pos ap) = localStorage ap)"
proof -
  from assms(1) have a: "\<not> MAX_ACCEPTABLE_ACCURACY < pos_accuracy pos" by simp
  from assms(5,6) have n: "\<not> js_ge (sample_distance fl lp pos) (1 / 2)" by simp
  from callback_noise [OF a assms(2,3,4) n, of today]
    untouched_storage [of "localStorage (positionCallback fl today now pos ap)" today "localStorage ap"]
  show ?thesis by simp
qed

theorem noise_moves_baseline_only_witness:
  "pos_accuracy (example_position 0 10 61000) \<le> MAX_ACCEPTABLE_ACCURACY \<and>
   lastPos example_app = Some \<lparr> lat = 0, lon = 0, timestamp = 1000 \<rparr> \<and>
   elapsed 0 \<lparr> lat = 0, lon = 0, timestamp = 1000 \<rparr> (example_position 0 10 61000) = 60 \<and>
   sample_distance example_fl \<lparr> lat = 0, lon = 0, timestamp = 1000 \<rparr>
      (example_position 0 10 61000) = Fin (Dec 0 0) \<and>
   val (Dec 0 0) < 1 / 2 \<and>
   lastPos (positionCallback example_fl ''2024-05-01'' 0
      (example_position 0 10 61000) example_app) =
     Some \<lparr> lat = 0, lon = 0, timestamp = 61000 \<rparr> \<and>
   distanceMeters ''2024-05-01'' (localStorage (positionCallback example_fl
      ''2024-05-01'' 0 (example_position 0 10 61000) example_app)) = 5000 \<and>
   localStorage (positionCallback example_fl ''2024-05-01'' 0
      (example_position 0 10 61000) example_app) = example_storage"
proof -
  let ?lp = "\<lparr> lat = 0, lon = 0, timestamp = 1000 \<rparr>"
  have h1: "pos_accuracy (example_position 0 10 61000) \<le> MAX_ACCEPTABLE_ACCURACY"
    by (simp add: MAX_ACCEPTABLE_ACCURACY_def example_position_def)
  have h2: "lastPos example_app = Some ?lp" by (simp add: example_app_def)
  have e: "elapsed 0 ?lp (example_position 0 10 61000) = 60" by (rule example_elapsed)
  then have h3: "0 < elapsed 0 ?lp (example_position 0 10 61000)" by simp
  have h5: "sample_distance example_fl ?lp (example_position 0 10 61000) = Fin (Dec 0 0)"
    by (rule example_distances)
  have h4: "\<not> js_gt (js_div (sample_distance example_fl ?lp (example_position 0 10 61000))
      (elapsed 0 ?lp (example_position 0 10 61000))) MAX_SPEED_MPS"
    unfolding h5 e by (simp add: MAX_SPEED_MPS_def)
  have h6: "val (Dec 0 0) < 1 / 2" by simp
  have c: "date_current ''2024-05-01'' (localStorage example_app)"
    by (simp add: example_app_def example_current)
  from noise_moves_baseline_only [OF h1 h2 h3 h4 h5 h6, of "''2024-05-01''"] c h1 h2 e h5 h6
  show ?thesis by (simp add: example_facts example_accepted)
qed

subsection \<open>Timestamps that do not advance\<close>

text \<open>
  Claim C7. A sample whose elapsed time since \<open>lastPos\<close> is zero or negative is dropped:
  \<open>lastPos\<close> is not updated and no distance is added.
\<close>

theorem timestamp_anomaly_dropped:
  assumes "lastPos ap = Some lp" and "elapsed now lp pos \<le> 0"
  shows "lastPos (positionCallback fl today now pos ap) = lastPos ap \<and>
         distanceMeters today (localStorage (positionCallback fl today now pos ap)) =
           distanceMeters today (localStorage ap) \<and>
         localStorage (positionCallback fl today now pos ap) =
           snd (loadState today (localStorage ap)) \<and>
         (date_current today (localStorage ap) \<longrightarrow>
            localStorage (positionCallback fl today now pos ap) = localStorage ap)"
  using callback_anomaly [OF assms, of fl today]
    untouched_storage [of "localStorage (positionCallback fl today now pos ap)" today "localStorage ap"]
  by simp

theorem timestamp_anomaly_dropped_witness:
  "lastPos example_app = Some \<lparr> lat = 0, lon = 0, timestamp = 1000 \<rparr> \<and>
   elapsed 0 \<lparr> lat = 0, lon = 0, timestamp = 1000 \<rparr> (example_position 180 10 500) \<le> 0 \<and>
   lastPos (positionCallback example_fl ''2024-05-01'' 0
      (example_position 180 10 500) example_app) = Some \<lparr> lat = 0, lon = 0, timestamp = 1000 \<rparr> \<and>
   distanceMeters ''2024-05-01'' (localStorage (positionCallback example_fl
      ''2024-05-01'' 0 (example_position 180 10 500) example_app)) = 5000 \<and>
   localStorage (positionCallback example_fl ''2024-05-01'' 0
      (example_position 180 10 500) example_app) = example_storage"
proof -
  have h1: "lastPos example_app = Some \<lparr> lat = 0, lon = 0, timestamp = 1000 \<rparr>"
    by (simp add: example_app_def)
  have h2: "elapsed 0 \<lparr> lat = 0, lon = 0, timestamp = 1000 \<rparr> (example_position 180 10 500) \<le> 0"
    by (simp add: example_elapsed)
  have c: "date_current ''2024-05-01'' (localStorage example_app)"
    by (simp add: example_app_def example_current)
  from timestamp_anomaly_dropped [OF h1 h2, of example_fl "''2024-05-01''"] c h1 h2
  show ?thesis by (simp add: example_facts)
qed

subsection \<open>Invalid settings\<close>




subsection \<open>Saving and loading again\<close>




subsection \<open>Reset keeps the settings\<close>



end
